theory Spec2Isabelle
  imports Main "HOL-Library.Word"
begin

unbundle bit_operations_syntax

section \<open>GPD/XDBF records of xenia/kernel/xam/xdbf/xdbf.h\<close>

text \<open>
  The header \<^verbatim>\<open>xdbf.h\<close> declares three in-memory records (\<^verbatim>\<open>TitlePlayed\<close>,
  \<^verbatim>\<open>Achievement\<close>, \<^verbatim>\<open>Setting\<close>) with their inline member functions. They are
  embedded here as records and functions over them. Mutation of \<^verbatim>\<open>this\<close> is explicit
  state passing; a failed \<^verbatim>\<open>assert\<close> and an access outside the addressed buffer are
  values of the type \<open>error\<close>.

  Conventions of the embedding:
  \<^item> \<^verbatim>\<open>wchar_t\<close> is a 16-bit code unit. The source relies on it (\<^verbatim>\<open>label.length() * 2 + 2\<close>,
    \<^verbatim>\<open>cbData - 2\<close>), so \<^verbatim>\<open>sizeof(wchar_t)\<close> is 2 throughout.
  \<^item> The host is little-endian, as the unconditional \<^verbatim>\<open>xe::byte_swap\<close> on every access
    to the big-endian format presupposes.
  \<^item> A buffer is a list of bytes and a pointer into it is an offset. The bytes of the list
    that follow a record are whatever the address space holds there.
  \<^item> \<^verbatim>\<open>assert\<close> is the checking one (no \<^verbatim>\<open>NDEBUG\<close>): a false condition ends the call
    with \<open>TypeMismatch\<close>.
\<close>

type_synonym u8 = "8 word"
type_synonym u16 = "16 word"
type_synonym u32 = "32 word"
type_synonym u64 = "64 word"

text \<open>\<^verbatim>\<open>std::wstring\<close>: the code units without the terminator.\<close>

type_synonym wstring = "u16 list"

type_synonym memory = "u8 list"

datatype error = TypeMismatch | OutOfBounds

subsection \<open>Byte order and raw memory\<close>

text \<open>
  Modelled from the spec: \<^verbatim>\<open>xe::byte_swap\<close> (xenia/base/byte_order.h) is not among the
  sources. On a 16-bit value it exchanges the two bytes.
\<close>

definition byte_swap :: "u16 \<Rightarrow> u16" where
  "byte_swap w = push_bit 8 w OR drop_bit 8 w"

text \<open>The two bytes of a code unit as the little-endian host stores them.\<close>

definition host_bytes :: "u16 \<Rightarrow> u8 list" where
  "host_bytes w = [ucast w, ucast (drop_bit 8 w)]"

text \<open>The two bytes of a code unit in the format's byte order (big-endian).\<close>

definition be_bytes :: "u16 \<Rightarrow> u8 list" where
  "be_bytes w = [ucast (drop_bit 8 w), ucast w]"

definition be_wstring :: "wstring \<Rightarrow> u8 list" where
  "be_wstring s = concat (map be_bytes s)"

text \<open>The code units a byte sequence holds when read by the host, two bytes at a time.\<close>

fun host_units :: "u8 list \<Rightarrow> u16 list" where
  "host_units (lo # hi # rest) = word_cat hi lo # host_units rest"
| "host_units _ = []"


definition load_wchars :: "memory \<Rightarrow> nat \<Rightarrow> nat \<Rightarrow> u16 list option" where
  "load_wchars mem p count =
     (if p + 2 * count \<le> length mem then Some (take count (host_units (drop p mem)))
      else None)"

definition store_wchars :: "memory \<Rightarrow> nat \<Rightarrow> u16 list \<Rightarrow> memory option" where
  "store_wchars mem p ws =
     (if p + 2 * length ws \<le> length mem
      then Some (take p mem @ concat (map host_bytes ws) @ drop (p + 2 * length ws) mem)
      else None)"

text \<open>\<^verbatim>\<open>*(wchar_t*)ptr = w\<close>.\<close>

definition store_wchar :: "memory \<Rightarrow> nat \<Rightarrow> u16 \<Rightarrow> memory option" where
  "store_wchar mem p w = store_wchars mem p [w]"

text \<open>
  Modelled from the spec: \<^verbatim>\<open>xe::copy_and_swap<wchar_t>(dest, src, count)\<close>
  (xenia/base/memory.h) is not among the sources. It stores at \<^verbatim>\<open>dest\<close> the \<^verbatim>\<open>count\<close>
  code units found at \<^verbatim>\<open>src\<close>, each byte-swapped. Both pointers are a buffer and an
  offset; leaving either buffer is \<open>None\<close>.
\<close>

definition copy_and_swap :: "memory \<Rightarrow> nat \<Rightarrow> memory \<Rightarrow> nat \<Rightarrow> nat \<Rightarrow> memory option" where
  "copy_and_swap dest dp src sp count =
     (case load_wchars src sp count of
        None \<Rightarrow> None
      | Some ws \<Rightarrow> store_wchars dest dp (map byte_swap ws))"

text \<open>\<^verbatim>\<open>s.c_str()\<close>: the code units of the string and its terminator, in host order.\<close>

definition c_str :: "wstring \<Rightarrow> memory" where
  "c_str s = concat (map host_bytes (s @ [0]))"

text \<open>
  \<^verbatim>\<open>std::wstring(const wchar_t*)\<close>: the code units up to the first zero one. Running off
  the buffer before a terminator is an out-of-bounds read.
\<close>

fun until_null :: "u16 list \<Rightarrow> error + wstring" where
  "until_null [] = Inl OutOfBounds"
| "until_null (c # cs) =
     (if c = 0 then Inr []
      else case until_null cs of Inl e \<Rightarrow> Inl e | Inr r \<Rightarrow> Inr (c # r))"

definition wstring_from_ptr :: "memory \<Rightarrow> nat \<Rightarrow> error + wstring" where
  "wstring_from_ptr mem p = until_null (host_units (drop p mem))"

text \<open>\<^verbatim>\<open>std::vector<uint8_t>::resize(n)\<close>: keeps a prefix, appends zero bytes.\<close>

definition resize :: "nat \<Rightarrow> u8 list \<Rightarrow> u8 list" where
  "resize n xs = take n xs @ replicate (n - length xs) 0"

subsection \<open>ReadNullTermString\<close>





subsection \<open>TitlePlayed\<close>






subsection \<open>Achievement\<close>

text \<open>\<^verbatim>\<open>enum class AchievementFlags : uint32_t\<close>.\<close>

definition kTypeMask :: u32 where "kTypeMask = 0x7"
definition kShowUnachieved :: u32 where "kShowUnachieved = 0x8"
definition kAchievedOnline :: u32 where "kAchievedOnline = 0x10000"
definition kAchieved :: u32 where "kAchieved = 0x20000"
definition kNotAchievable :: u32 where "kNotAchievable = 0x40000"
definition kWasNotAchievable :: u32 where "kWasNotAchievable = 0x80000"
definition kPlatformMask :: u32 where "kPlatformMask = 0x700000"
definition kColorizable :: u32 where "kColorizable = 0x1000000"

record Achievement =
  id_ach :: u16
  label :: wstring
  description :: wstring
  unachieved_desc :: wstring
  image_id :: u32
  gamerscore :: u32
  flags :: u32
  unlock_time :: u64


text \<open>A \<^verbatim>\<open>uint32_t\<close> used as a condition is true when it is not zero.\<close>

definition IsUnlockable :: "Achievement \<Rightarrow> bool" where
  "IsUnlockable a \<longleftrightarrow>
     \<not> (flags a AND kNotAchievable \<noteq> 0) \<or> (flags a AND kWasNotAchievable \<noteq> 0)"

definition IsUnlocked :: "Achievement \<Rightarrow> bool" where
  "IsUnlocked a \<longleftrightarrow> flags a AND kAchieved \<noteq> 0"

definition IsUnlockedOnline :: "Achievement \<Rightarrow> bool" where
  "IsUnlockedOnline a \<longleftrightarrow> flags a AND kAchievedOnline \<noteq> 0"

text \<open>
  \<^verbatim>\<open>Unlock(bool online)\<close>. \<open>now\<close> is what \<^verbatim>\<open>Clock::QueryHostSystemTime()\<close> returns at
  the call.
\<close>

definition Unlock :: "bool \<Rightarrow> u64 \<Rightarrow> Achievement \<Rightarrow> Achievement" where
  "Unlock online now a =
     (if \<not> IsUnlockable a then a
      else
        let a1 = a\<lparr>flags := flags a OR kAchieved\<rparr>;
            a2 = (if online then a1\<lparr>flags := flags a1 OR kAchievedOnline\<rparr> else a1)
        in a2\<lparr>unlock_time := now\<rparr>)"

definition Lock :: "Achievement \<Rightarrow> Achievement" where
  "Lock a =
     (let a1 = a\<lparr>flags := flags a AND NOT kAchieved\<rparr>;
          a2 = a1\<lparr>flags := flags a1 AND NOT kAchievedOnline\<rparr>
      in a2\<lparr>unlock_time := 0\<rparr>)"


subsection \<open>Setting\<close>

text \<open>
  Modelled from the spec: \<^verbatim>\<open>X_XUSER_DATA_TYPE\<close>, \<^verbatim>\<open>X_XUSER_DATA\<close>,
  \<^verbatim>\<open>X_XDBF_SETTING_ID\<close> and the macro \<^verbatim>\<open>XPROFILEID_TYPE\<close> are declared in xdbf_xbox.h,
  which is not among the sources. The type tags are the eight the specification lists. The
  members of \<^verbatim>\<open>X_XUSER_DATA\<close> the source assigns are fields of a record, a
  \<^verbatim>\<open>float\<close> and a \<^verbatim>\<open>double\<close> being their bit patterns; how the members share the
  inline slot is not modelled, and no statement below reads a member other than the one last
  written. \<^verbatim>\<open>XPROFILEID_TYPE\<close>, the external table from setting id to mandated type, is
  a parameter of every function that consults it.
\<close>

datatype X_XUSER_DATA_TYPE =
  kNull | kInt32 | kInt64 | kDouble | kUnicode | kFloat | kBinary | kDateTime

type_synonym X_XDBF_SETTING_ID = u32

record X_XUSER_DATA =
  type' :: X_XUSER_DATA_TYPE
  nData :: u32
  i64Data :: u64
  dblData :: u64
  string_cbData :: u32
  fData :: u32

record Setting =
  id_setting :: X_XDBF_SETTING_ID
  value' :: X_XUSER_DATA
  extraData :: "u8 list"

text \<open>
  The members a constructor's initialiser list leaves out: \<^verbatim>\<open>value\<close> is not initialised
  (\<open>v0\<close> is what it happens to hold), \<^verbatim>\<open>extraData\<close> is empty.
\<close>

definition Setting_init :: "X_XUSER_DATA \<Rightarrow> X_XDBF_SETTING_ID \<Rightarrow> Setting" where
  "Setting_init v0 i = \<lparr>id_setting = i, value' = v0, extraData = []\<rparr>"

text \<open>\<^verbatim>\<open>void Value(uint32_t new_value)\<close>.\<close>

definition Value_uint32 ::
  "(X_XDBF_SETTING_ID \<Rightarrow> X_XUSER_DATA_TYPE) \<Rightarrow> u32 \<Rightarrow> Setting \<Rightarrow> error + Setting" where
  "Value_uint32 XPROFILEID_TYPE new_value s =
     (let v1 = (value' s)\<lparr>type' := kInt32\<rparr>
      in if XPROFILEID_TYPE (id_setting s) \<noteq> type' v1 then Inl TypeMismatch
         else Inr (s\<lparr>value' := v1\<lparr>nData := new_value\<rparr>, extraData := []\<rparr>))"

text \<open>\<^verbatim>\<open>void Value(uint64_t new_value)\<close>.\<close>

definition Value_uint64 ::
  "(X_XDBF_SETTING_ID \<Rightarrow> X_XUSER_DATA_TYPE) \<Rightarrow> u64 \<Rightarrow> Setting \<Rightarrow> error + Setting" where
  "Value_uint64 XPROFILEID_TYPE new_value s =
     (let v1 = (value' s)\<lparr>type' := kInt64\<rparr>;
          v2 = (if XPROFILEID_TYPE (id_setting s) = kDateTime
                then v1\<lparr>type' := kDateTime\<rparr> else v1)
      in if XPROFILEID_TYPE (id_setting s) \<noteq> type' v2 then Inl TypeMismatch
         else Inr (s\<lparr>value' := v2\<lparr>i64Data := new_value\<rparr>, extraData := []\<rparr>))"

text \<open>\<^verbatim>\<open>void Value(float new_value)\<close>.\<close>

definition Value_float ::
  "(X_XDBF_SETTING_ID \<Rightarrow> X_XUSER_DATA_TYPE) \<Rightarrow> u32 \<Rightarrow> Setting \<Rightarrow> error + Setting" where
  "Value_float XPROFILEID_TYPE new_value s =
     (let v1 = (value' s)\<lparr>type' := kFloat\<rparr>
      in if XPROFILEID_TYPE (id_setting s) \<noteq> type' v1 then Inl TypeMismatch
         else Inr (s\<lparr>value' := v1\<lparr>fData := new_value\<rparr>, extraData := []\<rparr>))"

text \<open>\<^verbatim>\<open>void Value(double new_value)\<close>.\<close>

definition Value_double ::
  "(X_XDBF_SETTING_ID \<Rightarrow> X_XUSER_DATA_TYPE) \<Rightarrow> u64 \<Rightarrow> Setting \<Rightarrow> error + Setting" where
  "Value_double XPROFILEID_TYPE new_value s =
     (let v1 = (value' s)\<lparr>type' := kDouble\<rparr>
      in if XPROFILEID_TYPE (id_setting s) \<noteq> type' v1 then Inl TypeMismatch
         else Inr (s\<lparr>value' := v1\<lparr>dblData := new_value\<rparr>, extraData := []\<rparr>))"

text \<open>
  \<^verbatim>\<open>void Value(const std::wstring& new_value)\<close>. The length field is a \<^verbatim>\<open>uint32_t\<close>:
  the cast keeps the low 32 bits of \<^verbatim>\<open>(length + 1) * sizeof(wchar_t)\<close>. The terminator
  is stored at \<^verbatim>\<open>extraData.data() + cbData - 2\<close>, which lies before the buffer when
  \<^verbatim>\<open>cbData\<close> is below 2.
\<close>

definition Value_wstring ::
  "(X_XDBF_SETTING_ID \<Rightarrow> X_XUSER_DATA_TYPE) \<Rightarrow> wstring \<Rightarrow> Setting \<Rightarrow> error + Setting" where
  "Value_wstring XPROFILEID_TYPE new_value s =
     (let v1 = (value' s)\<lparr>type' := kUnicode\<rparr>
      in if XPROFILEID_TYPE (id_setting s) \<noteq> type' v1 then Inl TypeMismatch
         else
           let v2 = v1\<lparr>i64Data := 0\<rparr>;
               cb = (word_of_nat ((length new_value + 1) * 2) :: u32);
               v3 = v2\<lparr>string_cbData := cb\<rparr>;
               buf = resize (unat cb) (extraData s)
           in case copy_and_swap buf 0 (c_str new_value) 0 (length new_value) of
                None \<Rightarrow> Inl OutOfBounds
              | Some buf1 \<Rightarrow>
                  (if unat cb < 2 then Inl OutOfBounds
                   else (case store_wchar buf1 (unat cb - 2) 0 of
                           None \<Rightarrow> Inl OutOfBounds
                         | Some buf2 \<Rightarrow> Inr (s\<lparr>value' := v3, extraData := buf2\<rparr>))))"

text \<open>\<^verbatim>\<open>std::wstring ValueString()\<close>.\<close>

definition ValueString :: "Setting \<Rightarrow> error + wstring" where
  "ValueString s =
     (if type' (value' s) \<noteq> kUnicode then Inl TypeMismatch
      else
        let swapped = resize (length (extraData s)) []
        in case copy_and_swap swapped 0 (extraData s) 0 (length (extraData s) div 2) of
             None \<Rightarrow> Inl OutOfBounds
           | Some swapped1 \<Rightarrow> wstring_from_ptr swapped1 0)"

text \<open>The constructors. Four of them delegate to \<^verbatim>\<open>Value\<close>; the last one does not.\<close>

definition Setting_uint32 ::
  "(X_XDBF_SETTING_ID \<Rightarrow> X_XUSER_DATA_TYPE) \<Rightarrow> X_XUSER_DATA \<Rightarrow> X_XDBF_SETTING_ID \<Rightarrow> u32
     \<Rightarrow> error + Setting" where
  "Setting_uint32 XPROFILEID_TYPE v0 i x = Value_uint32 XPROFILEID_TYPE x (Setting_init v0 i)"

definition Setting_uint64 ::
  "(X_XDBF_SETTING_ID \<Rightarrow> X_XUSER_DATA_TYPE) \<Rightarrow> X_XUSER_DATA \<Rightarrow> X_XDBF_SETTING_ID \<Rightarrow> u64
     \<Rightarrow> error + Setting" where
  "Setting_uint64 XPROFILEID_TYPE v0 i x = Value_uint64 XPROFILEID_TYPE x (Setting_init v0 i)"

definition Setting_float ::
  "(X_XDBF_SETTING_ID \<Rightarrow> X_XUSER_DATA_TYPE) \<Rightarrow> X_XUSER_DATA \<Rightarrow> X_XDBF_SETTING_ID \<Rightarrow> u32
     \<Rightarrow> error + Setting" where
  "Setting_float XPROFILEID_TYPE v0 i x = Value_float XPROFILEID_TYPE x (Setting_init v0 i)"

definition Setting_wstring ::
  "(X_XDBF_SETTING_ID \<Rightarrow> X_XUSER_DATA_TYPE) \<Rightarrow> X_XUSER_DATA \<Rightarrow> X_XDBF_SETTING_ID \<Rightarrow> wstring
     \<Rightarrow> error + Setting" where
  "Setting_wstring XPROFILEID_TYPE v0 i x = Value_wstring XPROFILEID_TYPE x (Setting_init v0 i)"

text \<open>
  \<^verbatim>\<open>Setting(X_XDBF_SETTING_ID id, const std::initializer_list<uint8_t>& value)\<close>: the
  initialiser list sets \<^verbatim>\<open>id\<close> and \<^verbatim>\<open>extraData\<close>, the body sets the type tag. It calls
  no \<^verbatim>\<open>Value\<close> and has no \<^verbatim>\<open>assert\<close>.
\<close>

definition Setting_initializer_list ::
  "X_XUSER_DATA \<Rightarrow> X_XDBF_SETTING_ID \<Rightarrow> u8 list \<Rightarrow> error + Setting" where
  "Setting_initializer_list v0 i bytes =
     Inr \<lparr>id_setting = i, value' = v0\<lparr>type' := kBinary\<rparr>, extraData = bytes\<rparr>"

subsection \<open>Concrete values for the instances\<close>

text \<open>
  The instances below need closed inputs: a table from setting id to mandated type (the real
  one is outside the sources), the bytes an uninitialised \<^verbatim>\<open>X_XUSER_DATA\<close> may hold, and
  one record of each kind with the stored header that carries the same field values.
\<close>

definition example_XPROFILEID_TYPE :: "X_XDBF_SETTING_ID \<Rightarrow> X_XUSER_DATA_TYPE" where
  "example_XPROFILEID_TYPE i =
     (if i = 1 then kInt32 else if i = 2 then kInt64 else if i = 3 then kDouble
      else if i = 4 then kUnicode else if i = 5 then kFloat else if i = 6 then kBinary
      else if i = 7 then kDateTime else kNull)"

definition example_X_XUSER_DATA :: X_XUSER_DATA where
  "example_X_XUSER_DATA =
     \<lparr>type' = kNull, nData = 0xCDCDCDCD, i64Data = 0xCDCDCDCDCDCDCDCD,
      dblData = 0xCDCDCDCDCDCDCDCD, string_cbData = 0xCDCDCDCD, fData = 0xCDCDCDCD\<rparr>"





section \<open>Achievement flags\<close>

lemma flag_bits:
  "kAchievedOnline = 2 ^ 16" "kAchieved = 2 ^ 17"
  "kNotAchievable = 2 ^ 18" "kWasNotAchievable = 2 ^ 19"
  by (simp_all add: kAchievedOnline_def kAchieved_def kNotAchievable_def
      kWasNotAchievable_def)

lemma test_flag_iff_bit:
  fixes x :: u32
  shows "x AND 2 ^ n \<noteq> 0 \<longleftrightarrow> bit x n"
  by (simp add: and_exp_eq_0_iff_not_bit)

lemma bit_set_flag:
  fixes x :: u32
  assumes "m < 32"
  shows "bit (x OR 2 ^ m) n \<longleftrightarrow> bit x n \<or> n = m"
  using assms by (auto simp: bit_simps)

lemma bit_clear_flag:
  fixes x :: u32
  shows "bit (x AND NOT (2 ^ m)) n \<longleftrightarrow> bit x n \<and> n \<noteq> m"
  by (auto simp: bit_simps dest: bit_imp_le_length)

lemma IsUnlockable_bits:
  "IsUnlockable a \<longleftrightarrow> \<not> bit (flags a) 18 \<or> bit (flags a) 19"
  unfolding IsUnlockable_def flag_bits test_flag_iff_bit by simp

lemma IsUnlocked_bit: "IsUnlocked a \<longleftrightarrow> bit (flags a) 17"
  unfolding IsUnlocked_def flag_bits test_flag_iff_bit by simp

lemma IsUnlockedOnline_bit: "IsUnlockedOnline a \<longleftrightarrow> bit (flags a) 16"
  unfolding IsUnlockedOnline_def flag_bits test_flag_iff_bit by simp

lemma flags_Lock_bit:
  "bit (flags (Lock a)) n \<longleftrightarrow> bit (flags a) n \<and> n \<noteq> 17 \<and> n \<noteq> 16"
  unfolding Lock_def Let_def flag_bits by (simp add: bit_clear_flag del: power_numeral)

lemma flags_Unlock_bit:
  "IsUnlockable a \<Longrightarrow>
   bit (flags (Unlock online now a)) n \<longleftrightarrow> bit (flags a) n \<or> n = 17 \<or> (online \<and> n = 16)"
  unfolding Unlock_def Let_def flag_bits by (simp add: bit_set_flag del: power_numeral)

section \<open>Unlocking and locking an achievement\<close>

text \<open>
  Claim C1. \<^verbatim>\<open>Unlock(online)\<close> changes nothing when \<open>IsUnlockable\<close> is false, in
  particular when NotAchievable is set and WasNotAchievable is not. Otherwise it
  sets the Achieved bit (bit 17), sets the AchievedOnline bit (bit 16) when \<open>online\<close> holds
  and leaves it as it was when not, leaves every other bit and field alone, and stores the
  current host time in the unlock timestamp, whether or not the Achieved bit was set before.
\<close>

theorem Unlock_spec:
  "(\<not> IsUnlockable a \<longrightarrow> Unlock online now a = a) \<and>
   (flags a AND kNotAchievable \<noteq> 0 \<and> flags a AND kWasNotAchievable = 0 \<longrightarrow>
      Unlock online now a = a) \<and>
   (IsUnlockable a \<longrightarrow>
      Unlock online now a =
        a\<lparr>flags := (flags a OR kAchieved) OR (if online then kAchievedOnline else 0),
          unlock_time := now\<rparr> \<and>
      (\<forall>n. bit (flags (Unlock online now a)) n \<longleftrightarrow>
             bit (flags a) n \<or> n = 17 \<or> (online \<and> n = 16)) \<and>
      IsUnlocked (Unlock online now a) \<and>
      (IsUnlockedOnline (Unlock online now a) \<longleftrightarrow> online \<or> IsUnlockedOnline a) \<and>
      unlock_time (Unlock online now a) = now)"
proof (intro conjI impI)
  assume "\<not> IsUnlockable a"
  then show "Unlock online now a = a" by (simp add: Unlock_def)
next
  assume "flags a AND kNotAchievable \<noteq> 0 \<and> flags a AND kWasNotAchievable = 0"
  then show "Unlock online now a = a" by (simp add: Unlock_def IsUnlockable_def)
next
  assume u: "IsUnlockable a"
  show "Unlock online now a =
        a\<lparr>flags := (flags a OR kAchieved) OR (if online then kAchievedOnline else 0),
          unlock_time := now\<rparr>"
    using u by (simp add: Unlock_def Let_def)
  show bits: "\<forall>n. bit (flags (Unlock online now a)) n \<longleftrightarrow>
             bit (flags a) n \<or> n = 17 \<or> (online \<and> n = 16)"
    using u by (simp add: flags_Unlock_bit)
  show "IsUnlocked (Unlock online now a)"
    by (simp add: IsUnlocked_bit bits)
  show "IsUnlockedOnline (Unlock online now a) \<longleftrightarrow> online \<or> IsUnlockedOnline a"
    by (auto simp: IsUnlockedOnline_bit bits)
  show "unlock_time (Unlock online now a) = now"
    using u by (simp add: Unlock_def Let_def)
qed

text \<open>
  Both cases at concrete records: an achievement already achieved at time 5 is stamped
  again with 9; one with NotAchievable alone is returned as it came.
\<close>

theorem Unlock_spec_witness:
  "IsUnlockable \<lparr>id_ach = 1, label = [], description = [], unachieved_desc = [],
       image_id = 0, gamerscore = 10, flags = 0x20000, unlock_time = 5\<rparr> \<and>
   Unlock True 9 \<lparr>id_ach = 1, label = [], description = [], unachieved_desc = [],
       image_id = 0, gamerscore = 10, flags = 0x20000, unlock_time = 5\<rparr> =
     \<lparr>id_ach = 1, label = [], description = [], unachieved_desc = [],
       image_id = 0, gamerscore = 10, flags = 0x30000, unlock_time = 9\<rparr> \<and>
   \<not> IsUnlockable \<lparr>id_ach = 2, label = [], description = [], unachieved_desc = [],
       image_id = 0, gamerscore = 10, flags = 0x40000, unlock_time = 0\<rparr> \<and>
   Unlock True 9 \<lparr>id_ach = 2, label = [], description = [], unachieved_desc = [],
       image_id = 0, gamerscore = 10, flags = 0x40000, unlock_time = 0\<rparr> =
     \<lparr>id_ach = 2, label = [], description = [], unachieved_desc = [],
       image_id = 0, gamerscore = 10, flags = 0x40000, unlock_time = 0\<rparr>"
proof -
  let ?a = "\<lparr>id_ach = 1, label = [], description = [], unachieved_desc = [],
       image_id = 0, gamerscore = 10, flags = 0x20000, unlock_time = 5\<rparr>"
  let ?b = "\<lparr>id_ach = 2, label = [], description = [], unachieved_desc = [],
       image_id = 0, gamerscore = 10, flags = 0x40000, unlock_time = 0\<rparr>"
  have ha: "IsUnlockable ?a"
    by (simp add: IsUnlockable_def kNotAchievable_def kWasNotAchievable_def)
  have hb: "\<not> IsUnlockable ?b"
    by (simp add: IsUnlockable_def kNotAchievable_def kWasNotAchievable_def)
  from Unlock_spec [of ?a True 9] ha
  have "Unlock True 9 ?a = ?a\<lparr>flags := (flags ?a OR kAchieved) OR kAchievedOnline,
          unlock_time := 9\<rparr>"
    by simp
  moreover from Unlock_spec [of ?b True 9] hb have "Unlock True 9 ?b = ?b"
    by simp
  ultimately show ?thesis
    using ha hb by (simp add: kAchieved_def kAchievedOnline_def)
qed

text \<open>
  Claim C2. \<open>IsUnlockable\<close> holds exactly when the NotAchievable bit (0x40000, bit 18) is
  clear or the WasNotAchievable bit (0x80000, bit 19) is set. With both set the achievement
  is unlockable, and the answer depends on bits 18 and 19 alone: setting or clearing the
  Achieved bit does not change it.
\<close>

theorem IsUnlockable_spec:
  "(IsUnlockable a \<longleftrightarrow> \<not> bit (flags a) 18 \<or> bit (flags a) 19) \<and>
   (IsUnlockable a \<longleftrightarrow> flags a AND 0x40000 = 0 \<or> flags a AND 0x80000 \<noteq> 0) \<and>
   (bit (flags a) 18 \<and> bit (flags a) 19 \<longrightarrow> IsUnlockable a) \<and>
   (bit (flags a) 18 = bit (flags b) 18 \<and> bit (flags a) 19 = bit (flags b) 19
      \<longrightarrow> IsUnlockable a = IsUnlockable b) \<and>
   IsUnlockable (a\<lparr>flags := flags a OR kAchieved\<rparr>) = IsUnlockable a \<and>
   IsUnlockable (a\<lparr>flags := flags a AND NOT kAchieved\<rparr>) = IsUnlockable a"
proof (intro conjI impI)
  show "IsUnlockable a \<longleftrightarrow> \<not> bit (flags a) 18 \<or> bit (flags a) 19"
    by (rule IsUnlockable_bits)
  show "IsUnlockable a \<longleftrightarrow> flags a AND 0x40000 = 0 \<or> flags a AND 0x80000 \<noteq> 0"
    by (simp add: IsUnlockable_def kNotAchievable_def kWasNotAchievable_def)
  show "IsUnlockable a" if "bit (flags a) 18 \<and> bit (flags a) 19"
    using that by (simp add: IsUnlockable_bits)
  show "IsUnlockable a = IsUnlockable b"
    if "bit (flags a) 18 = bit (flags b) 18 \<and> bit (flags a) 19 = bit (flags b) 19"
    using that by (simp add: IsUnlockable_bits)
  show "IsUnlockable (a\<lparr>flags := flags a OR kAchieved\<rparr>) = IsUnlockable a"
    unfolding IsUnlockable_bits flag_bits by (simp add: bit_set_flag del: power_numeral)
  show "IsUnlockable (a\<lparr>flags := flags a AND NOT kAchieved\<rparr>) = IsUnlockable a"
    unfolding IsUnlockable_bits flag_bits by (simp add: bit_clear_flag del: power_numeral)
qed

text \<open>Flags 0xC0000 (both bits set) are unlockable, with the Achieved bit added too.\<close>

theorem IsUnlockable_spec_witness:
  "IsUnlockable \<lparr>id_ach = 3, label = [], description = [], unachieved_desc = [],
       image_id = 0, gamerscore = 0, flags = 0xC0000, unlock_time = 0\<rparr> \<and>
   IsUnlockable \<lparr>id_ach = 3, label = [], description = [], unachieved_desc = [],
       image_id = 0, gamerscore = 0, flags = 0xE0000, unlock_time = 0\<rparr>"
proof -
  let ?a = "\<lparr>id_ach = 3, label = [], description = [], unachieved_desc = [],
       image_id = 0, gamerscore = 0, flags = 0xC0000, unlock_time = 0\<rparr>"
  have 1: "IsUnlockable ?a"
    using IsUnlockable_spec [of ?a ?a] by simp
  have "IsUnlockable (?a\<lparr>flags := flags ?a OR kAchieved\<rparr>)"
    using IsUnlockable_spec [of ?a ?a] 1 by simp
  then show ?thesis using 1 by (simp add: kAchieved_def)
qed

text \<open>
  Claim C9. \<open>Lock\<close> clears the Achieved and AchievedOnline bits, keeps every other bit and
  field, and sets the unlock timestamp to zero, from any state. After any \<open>Unlock\<close>
  followed by \<open>Lock\<close>, \<open>IsUnlocked\<close> and \<open>IsUnlockedOnline\<close> are false and the
  timestamp is 0.
\<close>

theorem Lock_spec:
  "Lock a = a\<lparr>flags := (flags a AND NOT kAchieved) AND NOT kAchievedOnline, unlock_time := 0\<rparr> \<and>
   (\<forall>n. bit (flags (Lock a)) n \<longleftrightarrow> bit (flags a) n \<and> n \<noteq> 17 \<and> n \<noteq> 16) \<and>
   \<not> IsUnlocked (Lock a) \<and> \<not> IsUnlockedOnline (Lock a) \<and> unlock_time (Lock a) = 0 \<and>
   \<not> IsUnlocked (Lock (Unlock online now a)) \<and>
   \<not> IsUnlockedOnline (Lock (Unlock online now a)) \<and>
   unlock_time (Lock (Unlock online now a)) = 0"
proof -
  have l1: "\<not> IsUnlocked (Lock x)" for x
    by (simp add: IsUnlocked_bit flags_Lock_bit)
  have l2: "\<not> IsUnlockedOnline (Lock x)" for x
    by (simp add: IsUnlockedOnline_bit flags_Lock_bit)
  have l3: "unlock_time (Lock x) = 0" for x
    by (simp add: Lock_def Let_def)
  show ?thesis
  proof (intro conjI)
    show "Lock a =
      a\<lparr>flags := (flags a AND NOT kAchieved) AND NOT kAchievedOnline, unlock_time := 0\<rparr>"
      by (simp add: Lock_def Let_def)
    show "\<forall>n. bit (flags (Lock a)) n \<longleftrightarrow> bit (flags a) n \<and> n \<noteq> 17 \<and> n \<noteq> 16"
      by (simp add: flags_Lock_bit)
  qed (rule l1 l2 l3)+
qed

text \<open>An online unlock at time 9 followed by a lock gives the starting record back.\<close>

theorem Lock_spec_witness:
  "Lock (Unlock True 9 \<lparr>id_ach = 1, label = [], description = [], unachieved_desc = [],
       image_id = 0, gamerscore = 10, flags = 0x3, unlock_time = 0\<rparr>) =
     \<lparr>id_ach = 1, label = [], description = [], unachieved_desc = [],
       image_id = 0, gamerscore = 10, flags = 0x3, unlock_time = 0\<rparr>"
proof -
  let ?a = "\<lparr>id_ach = 1, label = [], description = [], unachieved_desc = [],
       image_id = 0, gamerscore = 10, flags = 0x3, unlock_time = 0\<rparr>"
  have "IsUnlockable ?a"
    by (simp add: IsUnlockable_def kNotAchievable_def kWasNotAchievable_def)
  then have u: "Unlock True 9 ?a = ?a\<lparr>flags := 0x30003, unlock_time := 9\<rparr>"
    by (simp add: Unlock_def Let_def kAchieved_def kAchievedOnline_def)
  from Lock_spec [of "Unlock True 9 ?a" True 9] show ?thesis
    unfolding u by (simp add: kAchieved_def kAchievedOnline_def)
qed

section \<open>Byte order, buffers and the string scan\<close>

lemma host_bytes_byte_swap: "host_bytes (byte_swap w) = be_bytes w"
  unfolding host_bytes_def be_bytes_def byte_swap_def
  by (simp; intro conjI; rule bit_word_eqI) (auto simp: bit_simps)

lemma byte_swap_involution: "byte_swap (byte_swap w) = w"
  unfolding byte_swap_def
  by (rule bit_word_eqI) (auto simp: bit_simps)


lemma word_cat_host_bytes:
  fixes w :: u16
  shows "word_cat (ucast (drop_bit 8 w) :: u8) (ucast w :: u8) = w"
  by (rule bit_word_eqI) (auto simp: bit_simps)

lemma host_units_host_bytes: "host_units (host_bytes w @ rest) = w # host_units rest"
  by (simp add: host_bytes_def word_cat_host_bytes)

lemma host_units_concat:
  "host_units (concat (map host_bytes ws) @ rest) = ws @ host_units rest"
  by (induction ws) (simp_all add: host_units_host_bytes)

lemma length_concat_host_bytes: "length (concat (map host_bytes ws)) = 2 * length ws"
  by (induction ws) (simp_all add: host_bytes_def)

lemma be_wstring_host: "be_wstring s = concat (map host_bytes (map byte_swap s))"
  by (simp add: be_wstring_def host_bytes_byte_swap comp_def)

lemma length_be_wstring: "length (be_wstring s) = 2 * length s"
  unfolding be_wstring_host by (simp only: length_concat_host_bytes length_map)

lemma host_units_be_wstring:
  "host_units (be_wstring s @ rest) = map byte_swap s @ host_units rest"
  unfolding be_wstring_host by (rule host_units_concat)





lemma until_null_terminated:
  "0 \<notin> set s \<Longrightarrow> until_null (s @ 0 # rest) = Inr s"
  by (induction s) auto





lemma byte_swap_0: "byte_swap 0 = 0"
  by (simp add: byte_swap_def)

lemma length_c_str: "length (c_str s) = 2 * length s + 2"
  using length_concat_host_bytes [of "s @ [0]"] by (simp add: c_str_def)

lemma host_units_c_str: "host_units (c_str s) = s @ [0]"
  using host_units_concat [of "s @ [0]" "[]"] by (simp add: c_str_def)

lemma load_wchars_c_str: "load_wchars (c_str s) 0 (length s) = Some s"
  by (simp add: load_wchars_def length_c_str host_units_c_str)

lemma store_wchars_byte_swap:
  "store_wchars dest dp (map byte_swap s) =
     (if dp + 2 * length s \<le> length dest
      then Some (take dp dest @ be_wstring s @ drop (dp + 2 * length s) dest)
      else None)"
  by (simp add: store_wchars_def be_wstring_host)

lemma copy_and_swap_c_str:
  "copy_and_swap dest dp (c_str s) 0 (length s) =
     (if dp + 2 * length s \<le> length dest
      then Some (take dp dest @ be_wstring s @ drop (dp + 2 * length s) dest)
      else None)"
  by (simp add: copy_and_swap_def load_wchars_c_str store_wchars_byte_swap)

lemma length_resize: "length (resize n xs) = n"
  by (simp add: resize_def)





section \<open>Decoding the trailing strings\<close>










section \<open>Encoding a title record\<close>






section \<open>Assigning a value to a setting\<close>

lemmas Value_defs = Value_uint32_def Value_uint64_def Value_float_def Value_double_def
  Value_wstring_def

lemmas Setting_ctor_defs = Setting_uint32_def Setting_uint64_def Setting_float_def
  Setting_wstring_def Setting_init_def

text \<open>
  Claim C5. \<^verbatim>\<open>Value(uint64_t)\<close> on a setting whose id is mandated DateTime succeeds and
  the stored type tag is DateTime; on one mandated Int64 it succeeds with tag Int64. In both
  cases the value goes to \<open>i64Data\<close> and \<open>extraData\<close> is cleared. The constructor from a
  \<^verbatim>\<open>uint64_t\<close> behaves the same.
\<close>
theorem Value_uint64_DateTime_alias:
  "(XPROFILEID_TYPE (id_setting s) = kDateTime \<longrightarrow>
      Value_uint64 XPROFILEID_TYPE x s =
        Inr (s\<lparr>value' := (value' s)\<lparr>type' := kDateTime, i64Data := x\<rparr>, extraData := []\<rparr>)) \<and>
   (XPROFILEID_TYPE (id_setting s) = kInt64 \<longrightarrow>
      Value_uint64 XPROFILEID_TYPE x s =
        Inr (s\<lparr>value' := (value' s)\<lparr>type' := kInt64, i64Data := x\<rparr>, extraData := []\<rparr>)) \<and>
   (XPROFILEID_TYPE i = kDateTime \<longrightarrow>
      Setting_uint64 XPROFILEID_TYPE v0 i x =
        Inr \<lparr>id_setting = i, value' = v0\<lparr>type' := kDateTime, i64Data := x\<rparr>, extraData = []\<rparr>) \<and>
   (XPROFILEID_TYPE i = kInt64 \<longrightarrow>
      Setting_uint64 XPROFILEID_TYPE v0 i x =
        Inr \<lparr>id_setting = i, value' = v0\<lparr>type' := kInt64, i64Data := x\<rparr>, extraData = []\<rparr>)"
  by (simp add: Value_uint64_def Setting_uint64_def Setting_init_def Let_def)

text \<open>The value 42 assigned under id 7 (DateTime) and under id 2 (Int64).\<close>
theorem Value_uint64_DateTime_alias_witness:
  "Value_uint64 example_XPROFILEID_TYPE 42
     \<lparr>id_setting = 7, value' = example_X_XUSER_DATA, extraData = [1, 2]\<rparr> =
     Inr \<lparr>id_setting = 7,
          value' = \<lparr>type' = kDateTime, nData = 0xCDCDCDCD, i64Data = 42,
                    dblData = 0xCDCDCDCDCDCDCDCD, string_cbData = 0xCDCDCDCD,
                    fData = 0xCDCDCDCD\<rparr>,
          extraData = []\<rparr> \<and>
   Value_uint64 example_XPROFILEID_TYPE 42
     \<lparr>id_setting = 2, value' = example_X_XUSER_DATA, extraData = [1, 2]\<rparr> =
     Inr \<lparr>id_setting = 2,
          value' = \<lparr>type' = kInt64, nData = 0xCDCDCDCD, i64Data = 42,
                    dblData = 0xCDCDCDCDCDCDCDCD, string_cbData = 0xCDCDCDCD,
                    fData = 0xCDCDCDCD\<rparr>,
          extraData = []\<rparr>"
  using Value_uint64_DateTime_alias
          [where XPROFILEID_TYPE = example_XPROFILEID_TYPE and x = 42
             and s = "\<lparr>id_setting = 7, value' = example_X_XUSER_DATA, extraData = [1, 2]\<rparr>"]
        Value_uint64_DateTime_alias
          [where XPROFILEID_TYPE = example_XPROFILEID_TYPE and x = 42
             and s = "\<lparr>id_setting = 2, value' = example_X_XUSER_DATA, extraData = [1, 2]\<rparr>"]
  by (simp add: example_XPROFILEID_TYPE_def example_X_XUSER_DATA_def)

text \<open>
  The checked paths. Every \<^verbatim>\<open>Value\<close> overload, and every constructor that delegates
  to one, ends with \<open>TypeMismatch\<close> when the id's mandated type is not the type of the
  overload (Int32, Float, Double, Unicode; for \<^verbatim>\<open>uint64_t\<close>, neither Int64 nor
  DateTime). In particular a string for an id mandated Int32 fails. Nothing is coerced: a
  \<^verbatim>\<open>Value\<close> call that returns leaves the type tag equal to the mandated type.
\<close>
theorem Value_TypeMismatch:
  "(XPROFILEID_TYPE (id_setting s) \<noteq> kInt32 \<longrightarrow>
      Value_uint32 XPROFILEID_TYPE x32 s = Inl TypeMismatch) \<and>
   (XPROFILEID_TYPE (id_setting s) \<noteq> kInt64 \<and> XPROFILEID_TYPE (id_setting s) \<noteq> kDateTime \<longrightarrow>
      Value_uint64 XPROFILEID_TYPE x64 s = Inl TypeMismatch) \<and>
   (XPROFILEID_TYPE (id_setting s) \<noteq> kFloat \<longrightarrow>
      Value_float XPROFILEID_TYPE x32 s = Inl TypeMismatch) \<and>
   (XPROFILEID_TYPE (id_setting s) \<noteq> kDouble \<longrightarrow>
      Value_double XPROFILEID_TYPE x64 s = Inl TypeMismatch) \<and>
   (XPROFILEID_TYPE (id_setting s) \<noteq> kUnicode \<longrightarrow>
      Value_wstring XPROFILEID_TYPE w s = Inl TypeMismatch) \<and>
   (XPROFILEID_TYPE i \<noteq> kInt32 \<longrightarrow>
      Setting_uint32 XPROFILEID_TYPE v0 i x32 = Inl TypeMismatch) \<and>
   (XPROFILEID_TYPE i \<noteq> kInt64 \<and> XPROFILEID_TYPE i \<noteq> kDateTime \<longrightarrow>
      Setting_uint64 XPROFILEID_TYPE v0 i x64 = Inl TypeMismatch) \<and>
   (XPROFILEID_TYPE i \<noteq> kFloat \<longrightarrow>
      Setting_float XPROFILEID_TYPE v0 i x32 = Inl TypeMismatch) \<and>
   (XPROFILEID_TYPE i \<noteq> kUnicode \<longrightarrow>
      Setting_wstring XPROFILEID_TYPE v0 i w = Inl TypeMismatch) \<and>
   (XPROFILEID_TYPE i = kInt32 \<longrightarrow>
      Setting_wstring XPROFILEID_TYPE v0 i w = Inl TypeMismatch) \<and>
   (\<forall>s'. Value_uint32 XPROFILEID_TYPE x32 s = Inr s' \<or>
         Value_uint64 XPROFILEID_TYPE x64 s = Inr s' \<or>
         Value_float XPROFILEID_TYPE x32 s = Inr s' \<or>
         Value_double XPROFILEID_TYPE x64 s = Inr s' \<or>
         Value_wstring XPROFILEID_TYPE w s = Inr s' \<longrightarrow>
         type' (value' s') = XPROFILEID_TYPE (id_setting s'))"
proof (intro conjI impI allI)
  fix s'
  assume "Value_uint32 XPROFILEID_TYPE x32 s = Inr s' \<or>
         Value_uint64 XPROFILEID_TYPE x64 s = Inr s' \<or>
         Value_float XPROFILEID_TYPE x32 s = Inr s' \<or>
         Value_double XPROFILEID_TYPE x64 s = Inr s' \<or>
         Value_wstring XPROFILEID_TYPE w s = Inr s'"
  then show "type' (value' s') = XPROFILEID_TYPE (id_setting s')"
    by (auto simp: Value_defs Let_def split: if_splits option.splits)
qed (simp_all add: Value_defs Setting_ctor_defs Let_def)

text \<open>A string for id 1 (Int32) and a 32-bit integer for id 4 (Unicode) both fail.\<close>
theorem Value_TypeMismatch_witness:
  "Setting_wstring example_XPROFILEID_TYPE example_X_XUSER_DATA 1 [0x41] = Inl TypeMismatch \<and>
   Value_uint32 example_XPROFILEID_TYPE 5
     \<lparr>id_setting = 4, value' = example_X_XUSER_DATA, extraData = []\<rparr> = Inl TypeMismatch"
  using Value_TypeMismatch
          [where XPROFILEID_TYPE = example_XPROFILEID_TYPE
             and s = "\<lparr>id_setting = 4, value' = example_X_XUSER_DATA, extraData = []\<rparr>"
             and ?x32.0 = 5 and i = 1 and ?v0.0 = example_X_XUSER_DATA and w = "[0x41]"]
  by (simp add: example_XPROFILEID_TYPE_def)

text \<open>
  Claim C6: constructing or assigning a setting with a value whose type disagrees with the
  type mandated for the id fails with \<open>TypeMismatch\<close>. The constructor from a list of
  bytes does not keep it. It is the one constructor that reaches no
  \<^verbatim>\<open>assert(XPROFILEID_TYPE(id) == value.type)\<close>: under id 1, mandated Int32, it returns a
  setting with tag Binary and the three bytes, where the constructor from a string for the
  same id ends with \<open>TypeMismatch\<close>. The result breaks the equality that the assertion
  of every other path states.
\<close>

theorem Setting_initializer_list_Int32_id_unchecked:
  "example_XPROFILEID_TYPE 1 = kInt32 \<and>
   Setting_initializer_list example_X_XUSER_DATA 1 [1, 2, 3] =
     Inr \<lparr>id_setting = 1,
          value' = \<lparr>type' = kBinary, nData = 0xCDCDCDCD, i64Data = 0xCDCDCDCDCDCDCDCD,
                    dblData = 0xCDCDCDCDCDCDCDCD, string_cbData = 0xCDCDCDCD,
                    fData = 0xCDCDCDCD\<rparr>,
          extraData = [1, 2, 3]\<rparr> \<and>
   Setting_wstring example_XPROFILEID_TYPE example_X_XUSER_DATA 1 [0x41] = Inl TypeMismatch \<and>
   Setting_uint64 example_XPROFILEID_TYPE example_X_XUSER_DATA 1 5 = Inl TypeMismatch \<and>
   Setting_float example_XPROFILEID_TYPE example_X_XUSER_DATA 1 5 = Inl TypeMismatch"
  by (simp add: example_XPROFILEID_TYPE_def Setting_initializer_list_def
      example_X_XUSER_DATA_def Value_defs Setting_ctor_defs Let_def)

text \<open>
  Claim C10. The constructor from a list of bytes returns, for every id and every list, a
  setting with that id, tag Binary and the bytes as \<open>extraData\<close>; the rest of \<^verbatim>\<open>value\<close>
  stays as it was. It consults no table, so it never ends with \<open>TypeMismatch\<close>. The other
  paths do check: under an id mandated Binary each of them fails.
\<close>
theorem Setting_initializer_list_spec:
  "Setting_initializer_list v0 i bytes =
     Inr \<lparr>id_setting = i, value' = v0\<lparr>type' := kBinary\<rparr>, extraData = bytes\<rparr> \<and>
   Setting_initializer_list v0 i bytes \<noteq> Inl TypeMismatch \<and>
   (XPROFILEID_TYPE i = kBinary \<longrightarrow>
      Setting_uint32 XPROFILEID_TYPE v0 i x32 = Inl TypeMismatch \<and>
      Setting_uint64 XPROFILEID_TYPE v0 i x64 = Inl TypeMismatch \<and>
      Setting_float XPROFILEID_TYPE v0 i x32 = Inl TypeMismatch \<and>
      Value_double XPROFILEID_TYPE x64 (Setting_init v0 i) = Inl TypeMismatch \<and>
      Setting_wstring XPROFILEID_TYPE v0 i w = Inl TypeMismatch)"
  by (simp add: Setting_initializer_list_def Value_defs Setting_ctor_defs Let_def)

text \<open>Two bytes attached to id 4, which the example table mandates as Unicode.\<close>
theorem Setting_initializer_list_spec_witness:
  "Setting_initializer_list example_X_XUSER_DATA 4 [9, 8] =
     Inr \<lparr>id_setting = 4,
          value' = \<lparr>type' = kBinary, nData = 0xCDCDCDCD, i64Data = 0xCDCDCDCDCDCDCDCD,
                    dblData = 0xCDCDCDCDCDCDCDCD, string_cbData = 0xCDCDCDCD,
                    fData = 0xCDCDCDCD\<rparr>,
          extraData = [9, 8]\<rparr> \<and>
   Setting_uint32 example_XPROFILEID_TYPE example_X_XUSER_DATA 6 7 = Inl TypeMismatch"
  using Setting_initializer_list_spec
          [where ?v0.0 = example_X_XUSER_DATA and i = 4 and bytes = "[9, 8]"]
        Setting_initializer_list_spec
          [where ?v0.0 = example_X_XUSER_DATA and i = 6
             and XPROFILEID_TYPE = example_XPROFILEID_TYPE and ?x32.0 = 7]
  by (simp add: example_XPROFILEID_TYPE_def example_X_XUSER_DATA_def)

section \<open>Strings in a setting\<close>

lemma store_wchar_terminator:
  assumes "length buf = 2 * n + 2"
  shows "store_wchar buf (2 * n) 0 = Some (take (2 * n) buf @ [0, 0])"
  using assms by (simp add: store_wchar_def store_wchars_def host_bytes_def)

lemma Value_wstring_fits:
  assumes ty: "XPROFILEID_TYPE (id_setting s) = kUnicode"
    and fit: "(length w + 1) * 2 < 2 ^ 32"
  shows "Value_wstring XPROFILEID_TYPE w s =
     Inr (s\<lparr>value' := (value' s)\<lparr>type' := kUnicode, i64Data := 0,
                 string_cbData := word_of_nat ((length w + 1) * 2)\<rparr>,
            extraData := be_wstring w @ [0, 0]\<rparr>)"
proof -
  define cb :: u32 where "cb = word_of_nat ((length w + 1) * 2)"
  define buf where "buf = resize (unat cb) (extraData s)"
  have "unat cb = ((length w + 1) * 2) mod 2 ^ LENGTH(32)"
    unfolding cb_def by (rule unat_of_nat)
  also have "\<dots> = 2 * length w + 2"
    using fit by simp
  finally have cb: "unat cb = 2 * length w + 2" .
  have lb: "length buf = 2 * length w + 2"
    by (simp only: buf_def length_resize cb)
  have c: "copy_and_swap buf 0 (c_str w) 0 (length w) =
             Some (be_wstring w @ drop (2 * length w) buf)"
    using lb by (simp add: copy_and_swap_c_str)
  have l1: "length (be_wstring w @ drop (2 * length w) buf) = 2 * length w + 2"
    using lb by (simp add: length_be_wstring)
  have p: "unat cb - 2 = 2 * length w" by (simp add: cb)
  have t: "store_wchar (be_wstring w @ drop (2 * length w) buf) (unat cb - 2) 0 =
             Some (be_wstring w @ [0, 0])"
    unfolding p using store_wchar_terminator [OF l1] by (simp add: length_be_wstring)
  have ge: "\<not> unat cb < 2" by (simp add: cb)
  show ?thesis
    unfolding Value_wstring_def Let_def cb_def [symmetric] buf_def [symmetric]
    by (simp add: c t ge ty)
qed

lemma Value_wstring_overflow:
  assumes ty: "XPROFILEID_TYPE (id_setting s) = kUnicode"
    and big: "2 ^ 32 \<le> (length w + 1) * 2"
  shows "Value_wstring XPROFILEID_TYPE w s = Inl OutOfBounds"
proof -
  define cb :: u32 where "cb = word_of_nat ((length w + 1) * 2)"
  define buf where "buf = resize (unat cb) (extraData s)"
  define x :: nat where "x = (length w + 1) * 2"
  define m :: nat where "m = 2 ^ 32"
  have m: "2 < m" by (simp add: m_def)
  have xm: "m \<le> x" using big by (simp add: x_def m_def)
  have "unat cb = x mod 2 ^ LENGTH(32)"
    unfolding cb_def x_def by (rule unat_of_nat)
  also have "\<dots> = x mod m" by (simp add: m_def)
  also have "\<dots> = (x - m) mod m" using xm by (rule le_mod_geq)
  also have "\<dots> \<le> x - m" by (rule mod_less_eq_dividend)
  also have "\<dots> < 2 * length w" using m xm by (simp add: x_def)
  finally have "\<not> 2 * length w \<le> length buf"
    by (simp add: buf_def length_resize)
  then have c: "copy_and_swap buf 0 (c_str w) 0 (length w) = None"
    by (simp add: copy_and_swap_c_str)
  show ?thesis
    unfolding Value_wstring_def Let_def cb_def [symmetric] buf_def [symmetric]
    by (simp add: c ty)
qed

lemma ValueString_encoded:
  assumes ty: "type' (value' s) = kUnicode"
    and ex: "extraData s = be_wstring w @ [0, 0]"
    and z: "0 \<notin> set w"
  shows "ValueString s = Inr w"
proof -
  let ?n = "length (extraData s)"
  have n: "?n = 2 * length w + 2"
    by (simp add: ex length_be_wstring)
  have u: "host_units (extraData s) = map byte_swap w @ [0]"
    unfolding ex by (simp add: host_units_be_wstring word_cat_eq)
  have l: "load_wchars (extraData s) 0 (?n div 2) = Some (map byte_swap w @ [0])"
    by (simp add: load_wchars_def u) (simp add: n)
  have sw: "map byte_swap (map byte_swap w @ [0]) = w @ [0]"
    by (simp add: byte_swap_involution byte_swap_0 comp_def)
  have st: "store_wchars (resize ?n []) 0 (w @ [0]) = Some (c_str w)"
    by (simp add: store_wchars_def length_resize c_str_def n)
  have c: "copy_and_swap (resize ?n []) 0 (extraData s) 0 (?n div 2) = Some (c_str w)"
    unfolding copy_and_swap_def l by (simp only: option.case sw st)
  have "wstring_from_ptr (c_str w) 0 = Inr w"
    using until_null_terminated [OF z, of "[]"]
    by (simp add: wstring_from_ptr_def host_units_c_str)
  then show ?thesis
    unfolding ValueString_def Let_def by (simp add: c ty)
qed

text \<open>
  Claim C8, as the code has it. For a Unicode-mandated setting and a string whose encoded
  length \<open>(n + 1) * 2\<close> fits the 32-bit length field, \<^verbatim>\<open>Value(const std::wstring&)\<close>
  succeeds; the buffer is the string's code units in big-endian order followed by a zero code
  unit, whatever the buffer held before; the length field is \<open>(n + 1) * 2\<close>, the length of
  the buffer, and the last two bytes of the buffer are zero.
\<close>
theorem Value_wstring_encoding:
  "XPROFILEID_TYPE (id_setting s) = kUnicode \<and> (length w + 1) * 2 < 2 ^ 32 \<longrightarrow>
     (\<exists>s1. Value_wstring XPROFILEID_TYPE w s = Inr s1 \<and>
        id_setting s1 = id_setting s \<and>
        type' (value' s1) = kUnicode \<and>
        extraData s1 = be_wstring w @ [0, 0] \<and>
        unat (string_cbData (value' s1)) = (length w + 1) * 2 \<and>
        length (extraData s1) = unat (string_cbData (value' s1)) \<and>
        take (2 * length w) (extraData s1) = concat (map be_bytes w) \<and>
        drop (unat (string_cbData (value' s1)) - 2) (extraData s1) = [0, 0])"
proof (intro impI)
  assume h: "XPROFILEID_TYPE (id_setting s) = kUnicode \<and> (length w + 1) * 2 < 2 ^ 32"
  let ?s1 = "s\<lparr>value' := (value' s)\<lparr>type' := kUnicode, i64Data := 0,
                 string_cbData := word_of_nat ((length w + 1) * 2)\<rparr>,
            extraData := be_wstring w @ [0, 0]\<rparr>"
  have v: "Value_wstring XPROFILEID_TYPE w s = Inr ?s1"
    using h by (intro Value_wstring_fits) simp_all
  have "unat (word_of_nat ((length w + 1) * 2) :: u32) = ((length w + 1) * 2) mod 2 ^ LENGTH(32)"
    by (rule unat_of_nat)
  also have "\<dots> = (length w + 1) * 2" using h by simp
  finally have cb: "unat (string_cbData (value' ?s1)) = (length w + 1) * 2"
    by simp
  have len: "length (extraData ?s1) = (length w + 1) * 2"
    by (simp add: length_be_wstring)
  have tk: "take (2 * length w) (extraData ?s1) = concat (map be_bytes w)"
    by (simp add: length_be_wstring) (simp add: be_wstring_def)
  have dr: "drop ((length w + 1) * 2 - 2) (extraData ?s1) = [0, 0]"
    by (simp add: length_be_wstring)
  have "id_setting ?s1 = id_setting s \<and> type' (value' ?s1) = kUnicode \<and>
        extraData ?s1 = be_wstring w @ [0, 0]"
    by simp
  with v cb len tk dr show
    "\<exists>s1. Value_wstring XPROFILEID_TYPE w s = Inr s1 \<and>
        id_setting s1 = id_setting s \<and>
        type' (value' s1) = kUnicode \<and>
        extraData s1 = be_wstring w @ [0, 0] \<and>
        unat (string_cbData (value' s1)) = (length w + 1) * 2 \<and>
        length (extraData s1) = unat (string_cbData (value' s1)) \<and>
        take (2 * length w) (extraData s1) = concat (map be_bytes w) \<and>
        drop (unat (string_cbData (value' s1)) - 2) (extraData s1) = [0, 0]"
    by (intro exI [of _ ?s1]) (simp only: simp_thms)
qed

text \<open>
  The code units 0x0048 and 0x0169 assigned to a setting that held three bytes: six bytes,
  high byte first, terminator last, length field 6.
\<close>
theorem Value_wstring_encoding_witness:
  "Value_wstring example_XPROFILEID_TYPE [0x48, 0x169]
       \<lparr>id_setting = 4, value' = example_X_XUSER_DATA, extraData = [1, 2, 3]\<rparr> =
     Inr \<lparr>id_setting = 4,
          value' = \<lparr>type' = kUnicode, nData = 0xCDCDCDCD, i64Data = 0,
                    dblData = 0xCDCDCDCDCDCDCDCD, string_cbData = 6, fData = 0xCDCDCDCD\<rparr>,
          extraData = [0, 0x48, 1, 0x69, 0, 0]\<rparr>"
proof -
  let ?s = "\<lparr>id_setting = 4, value' = example_X_XUSER_DATA, extraData = [1, 2, 3]\<rparr>"
  have h: "example_XPROFILEID_TYPE (id_setting ?s) = kUnicode \<and>
           (length [0x48, 0x169 :: u16] + 1) * 2 < (2 :: nat) ^ 32"
    by (simp add: example_XPROFILEID_TYPE_def)
  from Value_wstring_encoding [of example_XPROFILEID_TYPE ?s "[0x48, 0x169]"] h
  obtain s1 where v: "Value_wstring example_XPROFILEID_TYPE [0x48, 0x169] ?s = Inr s1"
    by blast
  have "Value_wstring example_XPROFILEID_TYPE [0x48, 0x169] ?s =
          Inr (?s\<lparr>value' := (value' ?s)\<lparr>type' := kUnicode, i64Data := 0,
                 string_cbData := word_of_nat ((length [0x48, 0x169 :: u16] + 1) * 2)\<rparr>,
            extraData := be_wstring [0x48, 0x169] @ [0, 0]\<rparr>)"
    using h by (intro Value_wstring_fits) simp_all
  moreover have "be_wstring [0x48, 0x169] @ [0, 0] = [0, 0x48, 1, 0x69, 0, 0]"
    by (simp add: be_wstring_def be_bytes_def)
  ultimately show ?thesis
    using v by (simp add: example_X_XUSER_DATA_def)
qed

text \<open>
  Claim C8 as stated fails for a string of \<open>2^31\<close> code units. The encoded length
  \<open>(2^31 + 1) * 2\<close> does not fit the \<^verbatim>\<open>uint32_t\<close> length field: the cast leaves 2, the
  buffer is resized to 2 bytes, and copying the code units leaves the buffer.
\<close>
theorem Value_wstring_length_overflow_counterexample:
  "example_XPROFILEID_TYPE 4 = kUnicode \<and>
   (word_of_nat ((length (replicate 2147483648 (0x41 :: u16)) + 1) * 2) :: u32) = 2 \<and>
   Value_wstring example_XPROFILEID_TYPE (replicate 2147483648 0x41)
       \<lparr>id_setting = 4, value' = example_X_XUSER_DATA, extraData = []\<rparr> =
     Inl OutOfBounds"
proof -
  let ?s = "\<lparr>id_setting = 4, value' = example_X_XUSER_DATA, extraData = []\<rparr>"
  have t: "example_XPROFILEID_TYPE (id_setting ?s) = kUnicode"
    by (simp add: example_XPROFILEID_TYPE_def)
  have b: "(2 :: nat) ^ 32 \<le> (length (replicate 2147483648 (0x41 :: u16)) + 1) * 2"
    by simp
  have "Value_wstring example_XPROFILEID_TYPE (replicate 2147483648 0x41) ?s = Inl OutOfBounds"
    using t b by (rule Value_wstring_overflow)
  then show ?thesis
    by (simp add: example_XPROFILEID_TYPE_def)
qed

text \<open>
  Claim C7, as the code has it. For a Unicode-mandated setting, a string with no zero code
  unit and an encoded length that fits the 32-bit length field, \<^verbatim>\<open>Value(s)\<close> followed by
  \<^verbatim>\<open>ValueString()\<close> returns \<open>s\<close>.
\<close>
theorem Setting_wstring_roundtrip:
  "XPROFILEID_TYPE (id_setting s) = kUnicode \<and> 0 \<notin> set w \<and> (length w + 1) * 2 < 2 ^ 32 \<longrightarrow>
     (\<exists>s1. Value_wstring XPROFILEID_TYPE w s = Inr s1 \<and> ValueString s1 = Inr w)"
proof (intro impI)
  assume h: "XPROFILEID_TYPE (id_setting s) = kUnicode \<and> 0 \<notin> set w \<and>
             (length w + 1) * 2 < 2 ^ 32"
  let ?s1 = "s\<lparr>value' := (value' s)\<lparr>type' := kUnicode, i64Data := 0,
                 string_cbData := word_of_nat ((length w + 1) * 2)\<rparr>,
            extraData := be_wstring w @ [0, 0]\<rparr>"
  have v: "Value_wstring XPROFILEID_TYPE w s = Inr ?s1"
    using h by (intro Value_wstring_fits) simp_all
  have "ValueString ?s1 = Inr w"
    using h by (intro ValueString_encoded) simp_all
  with v show "\<exists>s1. Value_wstring XPROFILEID_TYPE w s = Inr s1 \<and> ValueString s1 = Inr w"
    by blast
qed

text \<open>The setting that the assignment of 0x0048, 0x0169 produces reads back as that string.\<close>
theorem Setting_wstring_roundtrip_witness:
  "ValueString
     \<lparr>id_setting = 4,
      value' = \<lparr>type' = kUnicode, nData = 0xCDCDCDCD, i64Data = 0,
                dblData = 0xCDCDCDCDCDCDCDCD, string_cbData = 6, fData = 0xCDCDCDCD\<rparr>,
      extraData = [0, 0x48, 1, 0x69, 0, 0]\<rparr> = Inr [0x48, 0x169]"
proof -
  let ?s = "\<lparr>id_setting = 4, value' = example_X_XUSER_DATA, extraData = [1, 2, 3]\<rparr>"
  have h: "example_XPROFILEID_TYPE (id_setting ?s) = kUnicode \<and> 0 \<notin> set [0x48, 0x169 :: u16] \<and>
           (length [0x48, 0x169 :: u16] + 1) * 2 < (2 :: nat) ^ 32"
    by (simp add: example_XPROFILEID_TYPE_def)
  from Setting_wstring_roundtrip [of example_XPROFILEID_TYPE ?s "[0x48, 0x169]"] h
  obtain s1 where v: "Value_wstring example_XPROFILEID_TYPE [0x48, 0x169] ?s = Inr s1"
    and r: "ValueString s1 = Inr [0x48, 0x169]"
    by blast
  have "Value_wstring example_XPROFILEID_TYPE [0x48, 0x169] ?s =
          Inr (?s\<lparr>value' := (value' ?s)\<lparr>type' := kUnicode, i64Data := 0,
                 string_cbData := word_of_nat ((length [0x48, 0x169 :: u16] + 1) * 2)\<rparr>,
            extraData := be_wstring [0x48, 0x169] @ [0, 0]\<rparr>)"
    using h by (intro Value_wstring_fits) simp_all
  moreover have "be_wstring [0x48, 0x169] @ [0, 0] = [0, 0x48, 1, 0x69, 0, 0]"
    by (simp add: be_wstring_def be_bytes_def)
  ultimately have "s1 = \<lparr>id_setting = 4,
      value' = \<lparr>type' = kUnicode, nData = 0xCDCDCDCD, i64Data = 0,
                dblData = 0xCDCDCDCDCDCDCDCD, string_cbData = 6, fData = 0xCDCDCDCD\<rparr>,
      extraData = [0, 0x48, 1, 0x69, 0, 0]\<rparr>"
    using v by (simp add: example_X_XUSER_DATA_def)
  with r show ?thesis by simp
qed

text \<open>
  Claim C7 as stated fails for a string of \<open>2^31 - 1\<close> code units, none of them zero. The
  encoded length is \<open>2^32\<close>, the cast to \<^verbatim>\<open>uint32_t\<close> leaves 0, the buffer is resized to
  no bytes, and the copy leaves it: there is no setting to read back.
\<close>
theorem Setting_wstring_roundtrip_overflow_counterexample:
  "example_XPROFILEID_TYPE 4 = kUnicode \<and>
   0 \<notin> set (replicate 2147483647 (0x41 :: u16)) \<and>
   Value_wstring example_XPROFILEID_TYPE (replicate 2147483647 0x41)
       \<lparr>id_setting = 4, value' = example_X_XUSER_DATA, extraData = []\<rparr> =
     Inl OutOfBounds"
proof -
  let ?s = "\<lparr>id_setting = 4, value' = example_X_XUSER_DATA, extraData = []\<rparr>"
  have t: "example_XPROFILEID_TYPE (id_setting ?s) = kUnicode"
    by (simp add: example_XPROFILEID_TYPE_def)
  have b: "(2 :: nat) ^ 32 \<le> (length (replicate 2147483647 (0x41 :: u16)) + 1) * 2"
    by simp
  have "Value_wstring example_XPROFILEID_TYPE (replicate 2147483647 0x41) ?s = Inl OutOfBounds"
    using t b by (rule Value_wstring_overflow)
  then show ?thesis
    by (simp add: example_XPROFILEID_TYPE_def)
qed

end
